theory Spec2Isabelle
  imports Complex_Main "HOL-Library.Multiset" "HOL-Library.Word"
begin

section \<open>Floating-point numbers\<close>

text \<open>
  A Go \<open>float64\<close> or \<open>float32\<close> is a finite binary fraction, an infinity or a NaN.
  \<open>round_to p emin emax\<close> is IEEE 754 rounding to nearest, ties to even, into the format
  with \<open>p\<close> significant bits and exponents from \<open>emin\<close> to \<open>emax\<close>: below \<open>2 ^ emin\<close>
  the spacing stays that of the subnormal numbers, and a result that reaches
  \<open>2 ^ (emax + 1)\<close> becomes an infinity. The sign of a zero is not kept; no operation
  modelled here divides by a variable, which is where it would show. Every operation
  rounds on its own, as Go does on amd64 (the language lets an implementation fuse a
  product with a sum).
\<close>

datatype float = Finite real | PosInf | NegInf | NaN

definition round_half_even :: "real \<Rightarrow> int" where
  "round_half_even x =
     (let f = \<lfloor>x\<rfloor>; r = x - of_int f
      in if r < 1 / 2 then f else if 1 / 2 < r then f + 1 else if even f then f else f + 1)"

definition round_to :: "nat \<Rightarrow> int \<Rightarrow> int \<Rightarrow> real \<Rightarrow> float" where
  "round_to p emin emax x =
     (if x = 0 then Finite 0
      else let e = max \<lfloor>log 2 \<bar>x\<bar>\<rfloor> emin;
               q = 2 powi (e - int p + 1);
               y = of_int (round_half_even (x / q)) * q
           in if 2 powi (emax + 1) \<le> \<bar>y\<bar> then (if 0 < x then PosInf else NegInf)
              else Finite y)"

definition float64 :: "real \<Rightarrow> float" where
  "float64 x = round_to 53 (- 1022) 1023 x"

definition float32 :: "real \<Rightarrow> float" where
  "float32 x = round_to 24 (- 126) 127 x"

text \<open>The conversion \<open>float32(x)\<close> of a \<open>float64\<close>; the conversion back is exact.\<close>

fun narrow :: "float \<Rightarrow> float" where
  "narrow (Finite x) = float32 x"
| "narrow PosInf = PosInf"
| "narrow NegInf = NegInf"
| "narrow NaN = NaN"

text \<open>The \<open>float64\<close> operations \<open>+\<close>, \<open>-\<close>, \<open>*\<close>, \<open>/\<close> and \<open>>\<close>.\<close>

fun fadd :: "float \<Rightarrow> float \<Rightarrow> float" where
  "fadd (Finite x) (Finite y) = float64 (x + y)"
| "fadd NaN b = NaN"
| "fadd a NaN = NaN"
| "fadd PosInf NegInf = NaN"
| "fadd NegInf PosInf = NaN"
| "fadd PosInf b = PosInf"
| "fadd a PosInf = PosInf"
| "fadd NegInf b = NegInf"
| "fadd a NegInf = NegInf"

fun fneg :: "float \<Rightarrow> float" where
  "fneg (Finite x) = Finite (- x)"
| "fneg PosInf = NegInf"
| "fneg NegInf = PosInf"
| "fneg NaN = NaN"

definition fsub :: "float \<Rightarrow> float \<Rightarrow> float" where
  "fsub a b = fadd a (fneg b)"

text \<open>The sign of a float, for the products and quotients with an infinity.\<close>

fun fsign :: "float \<Rightarrow> int" where
  "fsign (Finite x) = (if x < 0 then - 1 else if x = 0 then 0 else 1)"
| "fsign PosInf = 1"
| "fsign NegInf = - 1"
| "fsign NaN = 0"

definition signed_inf :: "int \<Rightarrow> float" where
  "signed_inf s = (if s = 0 then NaN else if 0 < s then PosInf else NegInf)"

fun fmul :: "float \<Rightarrow> float \<Rightarrow> float" where
  "fmul (Finite x) (Finite y) = float64 (x * y)"
| "fmul NaN b = NaN"
| "fmul a NaN = NaN"
| "fmul a b = signed_inf (fsign a * fsign b)"

fun fdiv :: "float \<Rightarrow> float \<Rightarrow> float" where
  "fdiv (Finite x) (Finite y) = (if y = 0 then signed_inf (fsign (Finite x)) else float64 (x / y))"
| "fdiv NaN b = NaN"
| "fdiv a NaN = NaN"
| "fdiv (Finite x) b = Finite 0"
| "fdiv a (Finite y) = signed_inf (fsign a * (if y < 0 then - 1 else 1))"
| "fdiv a b = NaN"

fun fgt :: "float \<Rightarrow> float \<Rightarrow> bool" where
  "fgt NaN b = False"
| "fgt a NaN = False"
| "fgt (Finite x) (Finite y) = (y < x)"
| "fgt PosInf PosInf = False"
| "fgt PosInf b = True"
| "fgt a PosInf = False"
| "fgt NegInf b = False"
| "fgt a NegInf = True"

text \<open>
  \<open>math.Min\<close>: negative infinity if either argument is, else NaN if either argument is,
  else the smaller one.
\<close>

definition math_Min :: "float \<Rightarrow> float \<Rightarrow> float" where
  "math_Min x y =
     (if x = NegInf \<or> y = NegInf then NegInf
      else if x = NaN \<or> y = NaN then NaN
      else if fgt y x then x else y)"

section \<open>Domain model (services/order/internal/model/order.go)\<close>

text \<open>
  The Go types \<open>OrderStatus\<close>, \<open>OrderType\<close> and \<open>PaymentMethod\<close> are string types with
  named constants; they are strings here too, so that a value outside the constants
  (the empty string of an unset filter, for instance) stays representable.
  A field of type \<open>float64\<close> or \<open>float32\<close> holds a \<open>float\<close>. The Go \<open>int\<close> is 64 bits
  wide; the quantities kept in it come from an \<open>int32\<close>, so it is an \<open>int\<close> here.
  \<open>time.Time\<close> is an integer time stamp, and \<open>time.Now()\<close> is an argument \<open>now\<close> of the
  operation that reads the clock.
\<close>

type_synonym OrderStatus = string

abbreviation StatusCreated :: OrderStatus where "StatusCreated \<equiv> ''CREATED''"
abbreviation StatusPaymentPending :: OrderStatus where "StatusPaymentPending \<equiv> ''PAYMENT_PENDING''"
abbreviation StatusPaymentComplete :: OrderStatus where "StatusPaymentComplete \<equiv> ''PAYMENT_COMPLETED''"
abbreviation StatusProviderAssigned :: OrderStatus where "StatusProviderAssigned \<equiv> ''PROVIDER_ASSIGNED''"
abbreviation StatusProviderAccepted :: OrderStatus where "StatusProviderAccepted \<equiv> ''PROVIDER_ACCEPTED''"
abbreviation StatusProviderRejected :: OrderStatus where "StatusProviderRejected \<equiv> ''PROVIDER_REJECTED''"
abbreviation StatusInProgress :: OrderStatus where "StatusInProgress \<equiv> ''IN_PROGRESS''"
abbreviation StatusPickedUp :: OrderStatus where "StatusPickedUp \<equiv> ''PICKED_UP''"
abbreviation StatusInTransit :: OrderStatus where "StatusInTransit \<equiv> ''IN_TRANSIT''"
abbreviation StatusArrived :: OrderStatus where "StatusArrived \<equiv> ''ARRIVED''"
abbreviation StatusDelivered :: OrderStatus where "StatusDelivered \<equiv> ''DELIVERED''"
abbreviation StatusCompleted :: OrderStatus where "StatusCompleted \<equiv> ''COMPLETED''"
abbreviation StatusCancelled :: OrderStatus where "StatusCancelled \<equiv> ''CANCELLED''"
abbreviation StatusRefunded :: OrderStatus where "StatusRefunded \<equiv> ''REFUNDED''"
abbreviation StatusDisputed :: OrderStatus where "StatusDisputed \<equiv> ''DISPUTED''"

type_synonym OrderType = string

abbreviation TypeRide :: OrderType where "TypeRide \<equiv> ''RIDE''"
abbreviation TypeFoodDelivery :: OrderType where "TypeFoodDelivery \<equiv> ''FOOD_DELIVERY''"
abbreviation TypePackageDelivery :: OrderType where "TypePackageDelivery \<equiv> ''PACKAGE_DELIVERY''"
abbreviation TypeGroceryDelivery :: OrderType where "TypeGroceryDelivery \<equiv> ''GROCERY_DELIVERY''"
abbreviation TypeServiceBooking :: OrderType where "TypeServiceBooking \<equiv> ''SERVICE_BOOKING''"

type_synonym PaymentMethod = string

abbreviation PaymentCreditCard :: PaymentMethod where "PaymentCreditCard \<equiv> ''CREDIT_CARD''"
abbreviation PaymentDebitCard :: PaymentMethod where "PaymentDebitCard \<equiv> ''DEBIT_CARD''"
abbreviation PaymentDigitalWallet :: PaymentMethod where "PaymentDigitalWallet \<equiv> ''DIGITAL_WALLET''"
abbreviation PaymentCash :: PaymentMethod where "PaymentCash \<equiv> ''CASH''"
abbreviation PaymentCrypto :: PaymentMethod where "PaymentCrypto \<equiv> ''CRYPTO''"

type_synonym Time = int

record Location =
  Latitude :: float
  Longitude :: float
  Address :: string
  PostalCode :: string
  City :: string
  Country :: string
  AdditionalInfo :: "string \<rightharpoonup> string"

record OrderItem =
  ItemID :: string
  Name :: string
  Quantity :: int
  Price :: float
  Properties :: "string \<rightharpoonup> string"

record StatusHistory =
  h_Status :: OrderStatus
  h_UpdatedBy :: string
  h_Notes :: string
  h_Timestamp :: Time

record Order =
  ID :: string
  UserID :: string
  ProviderID :: string
  OrderType :: OrderType
  Status :: OrderStatus
  PickupLocation :: Location
  DestinationLocation :: Location
  Items :: "OrderItem list"
  TotalPrice :: float
  PlatformFee :: float
  ProviderFee :: float
  TransactionID :: string
  BlockchainTxHash :: string
  PaymentMethod :: PaymentMethod
  Notes :: string
  CreatedAt :: Time
  UpdatedAt :: Time
  StatusHistories :: "StatusHistory list"

record OrderLocation =
  l_ID :: string
  l_OrderID :: string
  l_ProviderID :: string
  l_Latitude :: float
  l_Longitude :: float
  l_Timestamp :: Time

text \<open>\<open>(*Order).AddStatusHistory\<close>: sets the status and appends one history entry.\<close>

definition AddStatusHistory :: "Order \<Rightarrow> OrderStatus \<Rightarrow> string \<Rightarrow> string \<Rightarrow> Time \<Rightarrow> Order" where
  "AddStatusHistory ord st updatedBy notes now =
     ord\<lparr>Status := st, UpdatedAt := now,
         StatusHistories := StatusHistories ord @
           [\<lparr>h_Status = st, h_UpdatedBy = updatedBy, h_Notes = notes, h_Timestamp = now\<rparr>]\<rparr>"

text \<open>
  \<open>(*Order).CalculateFees\<close>: the constants \<open>0.1\<close> and \<open>0.8\<close> are the \<open>float64\<close> nearest to
  one tenth and to eight tenths.
\<close>

definition CalculateFees :: "Order \<Rightarrow> Order" where
  "CalculateFees ord =
     ord\<lparr>PlatformFee := fmul (TotalPrice ord) (float64 (1 / 10)),
         ProviderFee := fmul (TotalPrice ord) (float64 (8 / 10))\<rparr>"

section \<open>Wire messages (proto/order/order.proto)\<close>

text \<open>
  A proto3 enum travels as an \<open>int32\<close> and keeps numbers it has no name for, so an enum
  field is the number. An \<open>int32\<close> field is a 32-bit word, read as a signed number by
  \<open>sint\<close>; a \<open>float\<close> field holds a \<open>float32\<close>. A message field that may be absent is
  an \<open>option\<close>. The message \<open>Location\<close> has the fields of the domain's \<open>Location\<close>
  and is the same record.
\<close>

abbreviation (input) ORDER_TYPE_UNSPECIFIED :: int where "ORDER_TYPE_UNSPECIFIED \<equiv> 0"
abbreviation (input) ORDER_TYPE_RIDE :: int where "ORDER_TYPE_RIDE \<equiv> 1"
abbreviation (input) ORDER_TYPE_FOOD_DELIVERY :: int where "ORDER_TYPE_FOOD_DELIVERY \<equiv> 2"
abbreviation (input) ORDER_TYPE_PACKAGE_DELIVERY :: int where "ORDER_TYPE_PACKAGE_DELIVERY \<equiv> 3"
abbreviation (input) ORDER_TYPE_GROCERY_DELIVERY :: int where "ORDER_TYPE_GROCERY_DELIVERY \<equiv> 4"
abbreviation (input) ORDER_TYPE_SERVICE_BOOKING :: int where "ORDER_TYPE_SERVICE_BOOKING \<equiv> 5"

abbreviation (input) PAYMENT_METHOD_UNSPECIFIED :: int where "PAYMENT_METHOD_UNSPECIFIED \<equiv> 0"
abbreviation (input) PAYMENT_METHOD_CREDIT_CARD :: int where "PAYMENT_METHOD_CREDIT_CARD \<equiv> 1"
abbreviation (input) PAYMENT_METHOD_DEBIT_CARD :: int where "PAYMENT_METHOD_DEBIT_CARD \<equiv> 2"
abbreviation (input) PAYMENT_METHOD_DIGITAL_WALLET :: int where "PAYMENT_METHOD_DIGITAL_WALLET \<equiv> 3"
abbreviation (input) PAYMENT_METHOD_CASH :: int where "PAYMENT_METHOD_CASH \<equiv> 4"
abbreviation (input) PAYMENT_METHOD_CRYPTO :: int where "PAYMENT_METHOD_CRYPTO \<equiv> 5"

abbreviation (input) ORDER_STATUS_UNSPECIFIED :: int where "ORDER_STATUS_UNSPECIFIED \<equiv> 0"
abbreviation (input) ORDER_STATUS_CREATED :: int where "ORDER_STATUS_CREATED \<equiv> 1"
abbreviation (input) ORDER_STATUS_PAYMENT_PENDING :: int where "ORDER_STATUS_PAYMENT_PENDING \<equiv> 2"
abbreviation (input) ORDER_STATUS_PAYMENT_COMPLETED :: int where "ORDER_STATUS_PAYMENT_COMPLETED \<equiv> 3"
abbreviation (input) ORDER_STATUS_PROVIDER_ASSIGNED :: int where "ORDER_STATUS_PROVIDER_ASSIGNED \<equiv> 4"
abbreviation (input) ORDER_STATUS_PROVIDER_ACCEPTED :: int where "ORDER_STATUS_PROVIDER_ACCEPTED \<equiv> 5"
abbreviation (input) ORDER_STATUS_PROVIDER_REJECTED :: int where "ORDER_STATUS_PROVIDER_REJECTED \<equiv> 6"
abbreviation (input) ORDER_STATUS_IN_PROGRESS :: int where "ORDER_STATUS_IN_PROGRESS \<equiv> 7"
abbreviation (input) ORDER_STATUS_PICKED_UP :: int where "ORDER_STATUS_PICKED_UP \<equiv> 8"
abbreviation (input) ORDER_STATUS_IN_TRANSIT :: int where "ORDER_STATUS_IN_TRANSIT \<equiv> 9"
abbreviation (input) ORDER_STATUS_ARRIVED :: int where "ORDER_STATUS_ARRIVED \<equiv> 10"
abbreviation (input) ORDER_STATUS_DELIVERED :: int where "ORDER_STATUS_DELIVERED \<equiv> 11"
abbreviation (input) ORDER_STATUS_COMPLETED :: int where "ORDER_STATUS_COMPLETED \<equiv> 12"
abbreviation (input) ORDER_STATUS_CANCELLED :: int where "ORDER_STATUS_CANCELLED \<equiv> 13"
abbreviation (input) ORDER_STATUS_REFUNDED :: int where "ORDER_STATUS_REFUNDED \<equiv> 14"
abbreviation (input) ORDER_STATUS_DISPUTED :: int where "ORDER_STATUS_DISPUTED \<equiv> 15"

record pb_OrderItem =
  pb_ItemId :: string
  pb_Name :: string
  pb_Quantity :: "32 word"
  pb_Price :: float
  pb_Properties :: "string \<rightharpoonup> string"

record pb_OrderStatusHistory =
  pbh_Status :: int
  pbh_UpdatedBy :: string
  pbh_Notes :: string
  pbh_Timestamp :: Time

record pb_Order =
  pbo_Id :: string
  pbo_UserId :: string
  pbo_ProviderId :: string
  pbo_OrderType :: int
  pbo_Status :: int
  pbo_PickupLocation :: Location
  pbo_DestinationLocation :: Location
  pbo_Items :: "pb_OrderItem list"
  pbo_TotalPrice :: float
  pbo_PlatformFee :: float
  pbo_ProviderFee :: float
  pbo_TransactionId :: string
  pbo_BlockchainTxHash :: string
  pbo_PaymentMethod :: int
  pbo_Notes :: string
  pbo_CreatedAt :: Time
  pbo_UpdatedAt :: Time
  pbo_StatusHistory :: "pb_OrderStatusHistory list"

record CreateOrderRequest =
  cr_UserId :: string
  cr_OrderType :: int
  cr_PickupLocation :: "Location option"
  cr_DestinationLocation :: "Location option"
  cr_Items :: "pb_OrderItem list"
  cr_PaymentMethod :: int
  cr_Notes :: string

text \<open>
  The reply of a unary call carries the order in wire format, a message and the success
  flag. An error reply carries the gRPC status code.
\<close>

datatype Code = InvalidArgument | NotFound | PermissionDenied | FailedPrecondition | Internal

record OrderResponse =
  r_Order :: pb_Order
  r_Message :: string
  r_Success :: bool

section \<open>Conversions (order service, helper functions)\<close>

definition convertOrderType :: "int \<Rightarrow> OrderType" where
  "convertOrderType ot =
     (if ot = ORDER_TYPE_RIDE then TypeRide
      else if ot = ORDER_TYPE_FOOD_DELIVERY then TypeFoodDelivery
      else if ot = ORDER_TYPE_PACKAGE_DELIVERY then TypePackageDelivery
      else if ot = ORDER_TYPE_GROCERY_DELIVERY then TypeGroceryDelivery
      else if ot = ORDER_TYPE_SERVICE_BOOKING then TypeServiceBooking
      else TypeRide)"

definition convertOrderTypeToProto :: "OrderType \<Rightarrow> int" where
  "convertOrderTypeToProto ot =
     (if ot = TypeRide then ORDER_TYPE_RIDE
      else if ot = TypeFoodDelivery then ORDER_TYPE_FOOD_DELIVERY
      else if ot = TypePackageDelivery then ORDER_TYPE_PACKAGE_DELIVERY
      else if ot = TypeGroceryDelivery then ORDER_TYPE_GROCERY_DELIVERY
      else if ot = TypeServiceBooking then ORDER_TYPE_SERVICE_BOOKING
      else ORDER_TYPE_UNSPECIFIED)"

definition convertOrderStatusFromProto :: "int \<Rightarrow> OrderStatus" where
  "convertOrderStatusFromProto os =
     (if os = ORDER_STATUS_CREATED then StatusCreated
      else if os = ORDER_STATUS_PAYMENT_PENDING then StatusPaymentPending
      else if os = ORDER_STATUS_PAYMENT_COMPLETED then StatusPaymentComplete
      else if os = ORDER_STATUS_PROVIDER_ASSIGNED then StatusProviderAssigned
      else if os = ORDER_STATUS_PROVIDER_ACCEPTED then StatusProviderAccepted
      else if os = ORDER_STATUS_PROVIDER_REJECTED then StatusProviderRejected
      else if os = ORDER_STATUS_IN_PROGRESS then StatusInProgress
      else if os = ORDER_STATUS_PICKED_UP then StatusPickedUp
      else if os = ORDER_STATUS_IN_TRANSIT then StatusInTransit
      else if os = ORDER_STATUS_ARRIVED then StatusArrived
      else if os = ORDER_STATUS_DELIVERED then StatusDelivered
      else if os = ORDER_STATUS_COMPLETED then StatusCompleted
      else if os = ORDER_STATUS_CANCELLED then StatusCancelled
      else if os = ORDER_STATUS_REFUNDED then StatusRefunded
      else if os = ORDER_STATUS_DISPUTED then StatusDisputed
      else StatusCreated)"

definition convertOrderStatusToProto :: "OrderStatus \<Rightarrow> int" where
  "convertOrderStatusToProto os =
     (if os = StatusCreated then ORDER_STATUS_CREATED
      else if os = StatusPaymentPending then ORDER_STATUS_PAYMENT_PENDING
      else if os = StatusPaymentComplete then ORDER_STATUS_PAYMENT_COMPLETED
      else if os = StatusProviderAssigned then ORDER_STATUS_PROVIDER_ASSIGNED
      else if os = StatusProviderAccepted then ORDER_STATUS_PROVIDER_ACCEPTED
      else if os = StatusProviderRejected then ORDER_STATUS_PROVIDER_REJECTED
      else if os = StatusInProgress then ORDER_STATUS_IN_PROGRESS
      else if os = StatusPickedUp then ORDER_STATUS_PICKED_UP
      else if os = StatusInTransit then ORDER_STATUS_IN_TRANSIT
      else if os = StatusArrived then ORDER_STATUS_ARRIVED
      else if os = StatusDelivered then ORDER_STATUS_DELIVERED
      else if os = StatusCompleted then ORDER_STATUS_COMPLETED
      else if os = StatusCancelled then ORDER_STATUS_CANCELLED
      else if os = StatusRefunded then ORDER_STATUS_REFUNDED
      else if os = StatusDisputed then ORDER_STATUS_DISPUTED
      else ORDER_STATUS_UNSPECIFIED)"

definition convertPaymentMethod :: "int \<Rightarrow> PaymentMethod" where
  "convertPaymentMethod pm =
     (if pm = PAYMENT_METHOD_CREDIT_CARD then PaymentCreditCard
      else if pm = PAYMENT_METHOD_DEBIT_CARD then PaymentDebitCard
      else if pm = PAYMENT_METHOD_DIGITAL_WALLET then PaymentDigitalWallet
      else if pm = PAYMENT_METHOD_CASH then PaymentCash
      else if pm = PAYMENT_METHOD_CRYPTO then PaymentCrypto
      else PaymentCreditCard)"

definition convertPaymentMethodToProto :: "PaymentMethod \<Rightarrow> int" where
  "convertPaymentMethodToProto pm =
     (if pm = PaymentCreditCard then PAYMENT_METHOD_CREDIT_CARD
      else if pm = PaymentDebitCard then PAYMENT_METHOD_DEBIT_CARD
      else if pm = PaymentDigitalWallet then PAYMENT_METHOD_DIGITAL_WALLET
      else if pm = PaymentCash then PAYMENT_METHOD_CASH
      else if pm = PaymentCrypto then PAYMENT_METHOD_CRYPTO
      else PAYMENT_METHOD_UNSPECIFIED)"

definition zeroLocation :: Location where
  "zeroLocation = \<lparr>Latitude = Finite 0, Longitude = Finite 0, Address = [], PostalCode = [],
                    City = [], Country = [], AdditionalInfo = Map.empty\<rparr>"

definition convertLocation :: "Location option \<Rightarrow> Location" where
  "convertLocation loc = (case loc of None \<Rightarrow> zeroLocation | Some l \<Rightarrow> l)"

definition convertLocationToProto :: "Location \<Rightarrow> Location" where
  "convertLocationToProto loc = loc"

text \<open>\<open>convertOrderItems\<close>: \<open>int(item.Quantity)\<close> and \<open>float64(item.Price)\<close> are exact.\<close>

definition convertOrderItems :: "pb_OrderItem list \<Rightarrow> OrderItem list" where
  "convertOrderItems its =
     map (\<lambda>it. \<lparr>ItemID = pb_ItemId it, Name = pb_Name it, Quantity = sint (pb_Quantity it),
                Price = pb_Price it, Properties = pb_Properties it\<rparr>) its"

text \<open>
  \<open>convertOrderItemsToProto\<close>: \<open>int32(item.Quantity)\<close> keeps the low 32 bits and
  \<open>float32(item.Price)\<close> rounds.
\<close>

definition convertOrderItemsToProto :: "OrderItem list \<Rightarrow> pb_OrderItem list" where
  "convertOrderItemsToProto its =
     map (\<lambda>it. \<lparr>pb_ItemId = ItemID it, pb_Name = Name it, pb_Quantity = word_of_int (Quantity it),
                pb_Price = narrow (Price it), pb_Properties = Properties it\<rparr>) its"

definition convertStatusHistoryToProto :: "StatusHistory list \<Rightarrow> pb_OrderStatusHistory list" where
  "convertStatusHistoryToProto history =
     map (\<lambda>h. \<lparr>pbh_Status = convertOrderStatusToProto (h_Status h), pbh_UpdatedBy = h_UpdatedBy h,
               pbh_Notes = h_Notes h, pbh_Timestamp = h_Timestamp h\<rparr>) history"

text \<open>\<open>convertOrderToProto\<close>: the three prices are narrowed to \<open>float32\<close>.\<close>

definition convertOrderToProto :: "Order \<Rightarrow> pb_Order" where
  "convertOrderToProto ord =
     \<lparr>pbo_Id = ID ord, pbo_UserId = UserID ord, pbo_ProviderId = ProviderID ord,
      pbo_OrderType = convertOrderTypeToProto (OrderType ord),
      pbo_Status = convertOrderStatusToProto (Status ord),
      pbo_PickupLocation = convertLocationToProto (PickupLocation ord),
      pbo_DestinationLocation = convertLocationToProto (DestinationLocation ord),
      pbo_Items = convertOrderItemsToProto (Items ord),
      pbo_TotalPrice = narrow (TotalPrice ord),
      pbo_PlatformFee = narrow (PlatformFee ord),
      pbo_ProviderFee = narrow (ProviderFee ord),
      pbo_TransactionId = TransactionID ord,
      pbo_BlockchainTxHash = BlockchainTxHash ord,
      pbo_PaymentMethod = convertPaymentMethodToProto (PaymentMethod ord),
      pbo_Notes = Notes ord, pbo_CreatedAt = CreatedAt ord, pbo_UpdatedAt = UpdatedAt ord,
      pbo_StatusHistory = convertStatusHistoryToProto (StatusHistories ord)\<rparr>"

text \<open>
  \<open>calculateTotalPrice\<close>: the loop adds \<open>item.Price * float64(item.Quantity)\<close> item by
  item, from zero.
\<close>

definition calculateTotalPrice :: "OrderItem list \<Rightarrow> float" where
  "calculateTotalPrice its =
     foldl (\<lambda>total it. fadd total (fmul (Price it) (float64 (of_int (Quantity it))))) (Finite 0) its"

section \<open>The order store (services/order/internal/repository, scripts/init.sql)\<close>

text \<open>
  The store is PostgreSQL behind the pgx driver. What the source fixes is modelled: the
  statements, the primary keys, the foreign key, which columns a statement writes.
  What the engine and the driver decide is a parameter, collected in \<open>Engine\<close>:
  \<^item> \<open>accepts_order\<close> and \<open>accepts_location\<close>: whether the values of a row can be written
    (the widths of the \<open>VARCHAR\<close> columns, the range of \<open>NUMERIC(10, 2)\<close>, the encoding
    of the JSON columns, which fails on a NaN or an infinity);
  \<^item> \<open>numeric_10_2\<close>: the \<open>float64\<close> read back from a \<open>NUMERIC(10, 2)\<close> column;
  \<^item> \<open>timestamp_col\<close>: the time read back from a \<open>TIMESTAMP\<close> column;
  \<^item> \<open>order_by_created_at_desc\<close>: the rows in the order of \<open>ORDER BY created_at DESC\<close>,
    which SQL leaves open among rows of equal time.
  Every statement can also fail whatever its values are (connection lost, context
  cancelled): \<open>faults\<close> is the schedule of these outcomes, one entry per round trip,
  \<open>True\<close> for a failure; an exhausted schedule means that the store answers.
  A table is the list of its rows.
\<close>

datatype repo_error = ErrOrderNotFound | ErrInvalidData | ErrStore

record Engine =
  accepts_order :: "Order \<Rightarrow> bool"
  accepts_location :: "OrderLocation \<Rightarrow> bool"
  numeric_10_2 :: "float \<Rightarrow> float"
  timestamp_col :: "Time \<Rightarrow> Time"
  order_by_created_at_desc :: "Order list \<Rightarrow> Order list"

record DB =
  engine :: Engine
  orders :: "Order list"
  order_locations :: "OrderLocation list"
  faults :: "bool list"

definition roundtrip :: "DB \<Rightarrow> bool \<times> DB" where
  "roundtrip d = (case faults d of [] \<Rightarrow> (False, d) | f # fs \<Rightarrow> (f, d\<lparr>faults := fs\<rparr>))"

text \<open>The row of \<open>orders\<close> that holds the values of an order.\<close>

definition stored :: "DB \<Rightarrow> Order \<Rightarrow> Order" where
  "stored d ord =
     ord\<lparr>TotalPrice := numeric_10_2 (engine d) (TotalPrice ord),
         PlatformFee := numeric_10_2 (engine d) (PlatformFee ord),
         ProviderFee := numeric_10_2 (engine d) (ProviderFee ord),
         CreatedAt := timestamp_col (engine d) (CreatedAt ord),
         UpdatedAt := timestamp_col (engine d) (UpdatedAt ord)\<rparr>"

text \<open>\<open>OrderRepository.CreateOrder\<close>: an \<open>INSERT\<close>; \<open>id\<close> is the primary key.\<close>

definition repo_CreateOrder :: "DB \<Rightarrow> Order \<Rightarrow> repo_error option \<times> DB" where
  "repo_CreateOrder d ord =
     (if ID ord = [] \<or> UserID ord = [] then (Some ErrInvalidData, d)
      else let (failed, d') = roundtrip d in
        if failed then (Some ErrStore, d')
        else if \<not> accepts_order (engine d') ord then (Some ErrStore, d')
        else if (\<exists>r \<in> set (orders d'). ID r = ID ord) then (Some ErrStore, d')
        else (None, d'\<lparr>orders := orders d' @ [stored d' ord]\<rparr>))"

text \<open>\<open>OrderRepository.GetOrderByID\<close>: a \<open>SELECT\<close> of the row with the given id.\<close>

definition repo_GetOrderByID :: "DB \<Rightarrow> string \<Rightarrow> (repo_error + Order) \<times> DB" where
  "repo_GetOrderByID d orderID =
     (let (failed, d') = roundtrip d in
        if failed then (Inl ErrStore, d')
        else case find (\<lambda>r. ID r = orderID) (orders d') of
               None \<Rightarrow> (Inl ErrOrderNotFound, d')
             | Some r \<Rightarrow> (Inr r, d'))"

text \<open>
  \<open>OrderRepository.UpdateOrder\<close>: an \<open>UPDATE\<close> of every column but \<open>id\<close> and
  \<open>created_at\<close>, from the caller's copy of the order. It stamps \<open>UpdatedAt\<close> on the
  caller's copy first, so the copy is returned too.
\<close>

definition repo_UpdateOrder :: "DB \<Rightarrow> Order \<Rightarrow> Time \<Rightarrow> repo_error option \<times> Order \<times> DB" where
  "repo_UpdateOrder d ord now =
     (if ID ord = [] then (Some ErrInvalidData, ord, d)
      else let ord' = ord\<lparr>UpdatedAt := now\<rparr>; (failed, d') = roundtrip d in
        if failed then (Some ErrStore, ord', d')
        else if \<not> accepts_order (engine d') ord' then (Some ErrStore, ord', d')
        else if \<not> (\<exists>r \<in> set (orders d'). ID r = ID ord) then (Some ErrOrderNotFound, ord', d')
        else (None, ord',
              d'\<lparr>orders := map (\<lambda>r. if ID r = ID ord
                                       then (stored d' ord')\<lparr>CreatedAt := CreatedAt r\<rparr> else r)
                                 (orders d')\<rparr>))"

text \<open>
  \<open>OrderRepository.UpdateOrderStatus\<close>: one transaction. It begins, reads the row's
  history and status \<open>FOR UPDATE\<close>, appends the entry, writes status, history and
  \<open>updated_at\<close>, and commits; a failure on the way rolls back, which leaves the rows as
  they were. The row lock makes the four statements one step for every other writer.
\<close>

definition repo_UpdateOrderStatus ::
  "DB \<Rightarrow> string \<Rightarrow> OrderStatus \<Rightarrow> string \<Rightarrow> string \<Rightarrow> Time \<Rightarrow> repo_error option \<times> DB" where
  "repo_UpdateOrderStatus d orderID st updatedBy notes now =
     (let (f1, d1) = roundtrip d in
      if f1 then (Some ErrStore, d1)
      else let (f2, d2) = roundtrip d1 in
      if f2 then (Some ErrStore, d2)
      else case find (\<lambda>r. ID r = orderID) (orders d2) of
        None \<Rightarrow> (Some ErrOrderNotFound, d2)
      | Some row \<Rightarrow>
          let newEntry = \<lparr>h_Status = st, h_UpdatedBy = updatedBy, h_Notes = notes, h_Timestamp = now\<rparr>;
              statusHistory = StatusHistories row @ [newEntry];
              (f3, d3) = roundtrip d2 in
          if f3 then (Some ErrStore, d3)
          else if \<not> accepts_order (engine d3)
                      (row\<lparr>Status := st, StatusHistories := statusHistory, UpdatedAt := now\<rparr>)
            then (Some ErrStore, d3)
          else let (f4, d4) = roundtrip d3 in
          if f4 then (Some ErrStore, d4)
          else (None,
                d4\<lparr>orders := map (\<lambda>r. if ID r = orderID
                                         then r\<lparr>Status := st, StatusHistories := statusHistory,
                                               UpdatedAt := timestamp_col (engine d4) now\<rparr>
                                         else r) (orders d4)\<rparr>))"

text \<open>
  \<open>OrderLocationRepository.CreateOrderLocation\<close>: an \<open>INSERT\<close> into
  \<open>order_locations\<close>, whose \<open>order_id\<close> refers to \<open>orders\<close>; \<open>newID\<close> is the UUID drawn
  when the location has no id.
\<close>

definition CreateOrderLocation :: "DB \<Rightarrow> OrderLocation \<Rightarrow> string \<Rightarrow> Time \<Rightarrow> repo_error option \<times> DB" where
  "CreateOrderLocation d loc newID now =
     (let loc1 = (if l_ID loc = [] then loc\<lparr>l_ID := newID\<rparr> else loc);
          loc2 = loc1\<lparr>l_Timestamp := now\<rparr>;
          (failed, d') = roundtrip d
      in if failed then (Some ErrStore, d')
         else if \<not> accepts_location (engine d') loc2 then (Some ErrStore, d')
         else if (\<exists>r \<in> set (order_locations d'). l_ID r = l_ID loc2)
                 \<or> \<not> (\<exists>r \<in> set (orders d'). ID r = l_OrderID loc2)
           then (Some ErrStore, d')
         else (None, d'\<lparr>order_locations :=
                          order_locations d' @ [loc2\<lparr>l_Timestamp := timestamp_col (engine d') now\<rparr>]\<rparr>))"

section \<open>The provider matcher\<close>

record Provider =
  p_ID :: string
  p_Name :: string
  p_Rating :: float
  p_ServiceTypes :: "string list"
  p_Location :: Location
  p_IsAvailable :: bool
  p_Distance :: float

text \<open>
  The collaborators of the matcher. \<open>FindAvailableProviders\<close> is the provider
  directory: it answers a query (location, radius, service type) with the candidates
  or fails. \<open>sort_Slice\<close> is Go's \<open>sort.Slice\<close>, given the comparison and the slice;
  the library promises a sorted rearrangement when the comparison is a strict weak
  order, and no stability, so the theorems assume no more of it than
  \<open>sort_Slice_contract\<close>. Notifications to providers change nothing here: their
  failures are printed and dropped.
\<close>

type_synonym Query = "Location \<times> float \<times> string"

record Env =
  FindAvailableProviders :: "Location \<Rightarrow> float \<Rightarrow> string \<Rightarrow> string + Provider list"
  sort_Slice :: "(Provider \<Rightarrow> Provider \<Rightarrow> bool) \<Rightarrow> Provider list \<Rightarrow> Provider list"

definition orderTypeToServiceType :: "OrderType \<Rightarrow> string" where
  "orderTypeToServiceType orderType =
     (if orderType = TypeRide then ''ride''
      else if orderType = TypeFoodDelivery then ''food_delivery''
      else if orderType = TypePackageDelivery then ''package_delivery''
      else if orderType = TypeGroceryDelivery then ''grocery_delivery''
      else if orderType = TypeServiceBooking then ''service_booking''
      else ''general'')"

text \<open>
  The comparison closure of \<open>sortProvidersByScore\<close> and the three numbers it computes
  for a provider: \<open>1.0 - math.Min(Distance/10.0, 1.0)\<close>, \<open>Rating / 5.0\<close> and
  \<open>0.7*distanceScore + 0.3*ratingScore\<close>.
\<close>

definition distanceScore :: "Provider \<Rightarrow> float" where
  "distanceScore p = fsub (Finite 1) (math_Min (fdiv (p_Distance p) (Finite 10)) (Finite 1))"

definition ratingScore :: "Provider \<Rightarrow> float" where
  "ratingScore p = fdiv (p_Rating p) (Finite 5)"

definition score :: "Provider \<Rightarrow> float" where
  "score p = fadd (fmul (float64 (7 / 10)) (distanceScore p)) (fmul (float64 (3 / 10)) (ratingScore p))"

definition scoreLess :: "Provider \<Rightarrow> Provider \<Rightarrow> bool" where
  "scoreLess p q = fgt (score p) (score q)"

definition sortProvidersByScore :: "Env \<Rightarrow> Provider list \<Rightarrow> Provider list" where
  "sortProvidersByScore env providers = sort_Slice env scoreLess providers"

text \<open>
  What \<open>sort.Slice\<close> promises for this comparison: on a slice without a NaN score, where
  the comparison is a strict weak order, the result is a rearrangement in which no
  element is less than an earlier one.
\<close>

definition sort_Slice_contract ::
  "((Provider \<Rightarrow> Provider \<Rightarrow> bool) \<Rightarrow> Provider list \<Rightarrow> Provider list) \<Rightarrow> bool" where
  "sort_Slice_contract srt =
     (\<forall>xs. (\<forall>p \<in> set xs. score p \<noteq> NaN) \<longrightarrow>
           mset (srt scoreLess xs) = mset xs \<and>
           sorted_wrt (\<lambda>a b. \<not> scoreLess b a) (srt scoreLess xs))"

text \<open>
  The sorter used to run the model on concrete inputs: insertion from the left,
  behind every element that is not less.
\<close>

fun insert_by :: "('a \<Rightarrow> 'a \<Rightarrow> bool) \<Rightarrow> 'a \<Rightarrow> 'a list \<Rightarrow> 'a list" where
  "insert_by lt x [] = [x]"
| "insert_by lt x (y # ys) = (if lt x y then x # y # ys else y # insert_by lt x ys)"

definition insertion_sort :: "('a \<Rightarrow> 'a \<Rightarrow> bool) \<Rightarrow> 'a list \<Rightarrow> 'a list" where
  "insertion_sort lt xs = foldl (\<lambda>acc x. insert_by lt x acc) [] xs"

text \<open>
  \<open>ProviderMatcher.FindBestProviders\<close>. The result comes with the queries sent to the
  directory, in order. Slicing \<open>providers[:maxProviders]\<close> with a negative bound
  panics.
\<close>

datatype matcher_error = FindFailed | FindWiderFailed | SliceBoundsPanic

definition limitProviders :: "Provider list \<Rightarrow> int \<Rightarrow> matcher_error + Provider list" where
  "limitProviders providers maxProviders =
     (if int (length providers) > maxProviders
      then (if maxProviders < 0 then Inl SliceBoundsPanic else Inr (take (nat maxProviders) providers))
      else Inr providers)"

definition FindBestProviders ::
  "Env \<Rightarrow> Order \<Rightarrow> int \<Rightarrow> (matcher_error + Provider list) \<times> Query list" where
  "FindBestProviders env ord maxProviders =
     (let serviceType = orderTypeToServiceType (OrderType ord);
          location = PickupLocation ord
      in case FindAvailableProviders env location (Finite 5) serviceType of
           Inl e \<Rightarrow> (Inl FindFailed, [(location, Finite 5, serviceType)])
         | Inr providers \<Rightarrow>
             if int (length providers) < maxProviders
             then (case FindAvailableProviders env location (Finite 10) serviceType of
                     Inl e \<Rightarrow> (Inl FindWiderFailed,
                               [(location, Finite 5, serviceType), (location, Finite 10, serviceType)])
                   | Inr providers' \<Rightarrow>
                       (limitProviders (sortProvidersByScore env providers') maxProviders,
                        [(location, Finite 5, serviceType), (location, Finite 10, serviceType)]))
             else (limitProviders (sortProvidersByScore env providers) maxProviders,
                   [(location, Finite 5, serviceType)]))"

text \<open>\<open>ProviderMatcher.AssignProvider\<close>: sets the provider on the caller's copy.\<close>

definition matcher_AssignProvider :: "Order \<Rightarrow> string \<Rightarrow> Time \<Rightarrow> Order" where
  "matcher_AssignProvider ord providerID now =
     (AddStatusHistory (ord\<lparr>ProviderID := providerID\<rparr>) StatusProviderAssigned ''system''
        (''Provider '' @ providerID @ '' assigned'') now)\<lparr>UpdatedAt := now\<rparr>"

section \<open>The order service: creation\<close>

text \<open>
  \<open>OrderService.CreateOrder\<close>. \<open>orderID\<close> is the fresh UUID and \<open>now\<close> the clock reading.
  The result is the reply and the store as it is when the call returns; the ledger
  write-behind runs after that. \<open>newOrder\<close> is the order the handler builds before it
  writes it.
\<close>

definition newOrder :: "CreateOrderRequest \<Rightarrow> string \<Rightarrow> Time \<Rightarrow> Order" where
  "newOrder req orderID now =
     (let order0 = \<lparr>ID = orderID, UserID = cr_UserId req, ProviderID = [],
                     OrderType = convertOrderType (cr_OrderType req), Status = StatusCreated,
                     PickupLocation = convertLocation (cr_PickupLocation req),
                     DestinationLocation = convertLocation (cr_DestinationLocation req),
                     Items = convertOrderItems (cr_Items req),
                     TotalPrice = Finite 0, PlatformFee = Finite 0, ProviderFee = Finite 0,
                     TransactionID = [], BlockchainTxHash = [],
                     PaymentMethod = convertPaymentMethod (cr_PaymentMethod req),
                     Notes = cr_Notes req, CreatedAt = now, UpdatedAt = now,
                     StatusHistories = []\<rparr>;
          order1 = order0\<lparr>TotalPrice := calculateTotalPrice (Items order0)\<rparr>;
          order2 = CalculateFees order1
      in order2\<lparr>StatusHistories :=
                  [\<lparr>h_Status = StatusCreated, h_UpdatedBy = ''system'',
                    h_Notes = ''Order created'', h_Timestamp = now\<rparr>]\<rparr>)"

definition CreateOrder :: "DB \<Rightarrow> CreateOrderRequest \<Rightarrow> string \<Rightarrow> Time \<Rightarrow> (Code + OrderResponse) \<times> DB" where
  "CreateOrder d req orderID now =
     (if cr_UserId req = [] then (Inl InvalidArgument, d)
      else if cr_PickupLocation req = None \<or> cr_DestinationLocation req = None
        then (Inl InvalidArgument, d)
      else
        let ord = newOrder req orderID now
        in case repo_CreateOrder d ord of
             (Some e, d') \<Rightarrow> (Inl Internal, d')
           | (None, d') \<Rightarrow>
               (Inr \<lparr>r_Order = convertOrderToProto ord, r_Message = ''Order created successfully'',
                     r_Success = True\<rparr>, d'))"

section \<open>The order service: status changes\<close>

record UpdateOrderStatusRequest =
  us_OrderId :: string
  us_Status :: int
  us_UpdatedBy :: string
  us_Notes :: string

record CancelOrderRequest =
  cn_OrderId :: string
  cn_CancelledBy :: string
  cn_Reason :: string

record AssignProviderRequest =
  ap_OrderId :: string
  ap_ProviderId :: string

record AcceptOrderRequest =
  ac_OrderId :: string
  ac_ProviderId :: string
  ac_CurrentLocation :: "Location option"

record RejectOrderRequest =
  rj_OrderId :: string
  rj_ProviderId :: string
  rj_Reason :: string

text \<open>
  The block every handler starts with after its argument check: read the order, and
  turn \<open>ErrOrderNotFound\<close> into \<open>NotFound\<close> and any other failure into \<open>Internal\<close>.
\<close>

definition getCurrentOrder :: "DB \<Rightarrow> string \<Rightarrow> (Code + Order) \<times> DB" where
  "getCurrentOrder d orderID =
     (case repo_GetOrderByID d orderID of
        (Inl e, d1) \<Rightarrow> (if e = ErrOrderNotFound then (Inl NotFound, d1) else (Inl Internal, d1))
      | (Inr ord, d1) \<Rightarrow> (Inr ord, d1))"

text \<open>\<open>OrderService.UpdateOrderStatus\<close>.\<close>

definition UpdateOrderStatus ::
  "DB \<Rightarrow> UpdateOrderStatusRequest \<Rightarrow> Time \<Rightarrow> (Code + OrderResponse) \<times> DB" where
  "UpdateOrderStatus d req now =
     (if us_OrderId req = [] then (Inl InvalidArgument, d)
      else case getCurrentOrder d (us_OrderId req) of
        (Inl c, d1) \<Rightarrow> (Inl c, d1)
      | (Inr ord, d1) \<Rightarrow>
          let newStatus = convertOrderStatusFromProto (us_Status req) in
          case repo_UpdateOrderStatus d1 (us_OrderId req) newStatus (us_UpdatedBy req) (us_Notes req) now of
            (Some e, d2) \<Rightarrow> (Inl Internal, d2)
          | (None, d2) \<Rightarrow>
              (case repo_GetOrderByID d2 (us_OrderId req) of
                 (Inl e, d3) \<Rightarrow> (Inl Internal, d3)
               | (Inr updatedOrder, d3) \<Rightarrow>
                   (Inr \<lparr>r_Order = convertOrderToProto updatedOrder,
                         r_Message = ''Order status updated successfully'', r_Success = True\<rparr>, d3)))"

text \<open>\<open>OrderService.CancelOrder\<close>.\<close>

definition CancelOrder :: "DB \<Rightarrow> CancelOrderRequest \<Rightarrow> Time \<Rightarrow> (Code + OrderResponse) \<times> DB" where
  "CancelOrder d req now =
     (if cn_OrderId req = [] then (Inl InvalidArgument, d)
      else case getCurrentOrder d (cn_OrderId req) of
        (Inl c, d1) \<Rightarrow> (Inl c, d1)
      | (Inr ord, d1) \<Rightarrow>
          if Status ord = StatusCompleted \<or> Status ord = StatusCancelled \<or> Status ord = StatusRefunded
          then (Inl FailedPrecondition, d1)
          else case repo_UpdateOrderStatus d1 (cn_OrderId req) StatusCancelled (cn_CancelledBy req)
                      (cn_Reason req) now of
            (Some e, d2) \<Rightarrow> (Inl Internal, d2)
          | (None, d2) \<Rightarrow>
              (case repo_GetOrderByID d2 (cn_OrderId req) of
                 (Inl e, d3) \<Rightarrow> (Inl Internal, d3)
               | (Inr updatedOrder, d3) \<Rightarrow>
                   (Inr \<lparr>r_Order = convertOrderToProto updatedOrder,
                         r_Message = ''Order cancelled successfully'', r_Success = True\<rparr>, d3)))"

text \<open>
  The three handlers below read the order, change their own copy, and write the copy
  back with \<open>repo_UpdateOrder\<close>, outside any transaction. Each is given in two parts,
  the read with the change to the copy (\<open>_read\<close>) and the write with the reply
  (\<open>_write\<close>), and as the handler that runs one after the other.
\<close>

text \<open>
  \<open>OrderService.AssignProvider\<close>. It asks the matcher for three candidates, which is
  never a negative bound, so the matcher's panic cannot occur here.
\<close>

definition AssignProvider_read ::
  "Env \<Rightarrow> DB \<Rightarrow> AssignProviderRequest \<Rightarrow> Time \<Rightarrow> (Code + Order) \<times> DB" where
  "AssignProvider_read env d req now =
     (if ap_OrderId req = [] then (Inl InvalidArgument, d)
      else case getCurrentOrder d (ap_OrderId req) of
        (Inl c, d1) \<Rightarrow> (Inl c, d1)
      | (Inr ord, d1) \<Rightarrow>
          if ap_ProviderId req \<noteq> []
          then (Inr (matcher_AssignProvider ord (ap_ProviderId req) now), d1)
          else case fst (FindBestProviders env ord 3) of
            Inl e \<Rightarrow> (Inl Internal, d1)
          | Inr [] \<Rightarrow> (Inl NotFound, d1)
          | Inr (p # ps) \<Rightarrow> (Inr (matcher_AssignProvider ord (p_ID p) now), d1))"

definition AssignProvider_write :: "DB \<Rightarrow> Order \<Rightarrow> Time \<Rightarrow> (Code + OrderResponse) \<times> DB" where
  "AssignProvider_write d updatedOrder now =
     (case repo_UpdateOrder d updatedOrder now of
        (Some e, ord', d2) \<Rightarrow> (Inl Internal, d2)
      | (None, ord', d2) \<Rightarrow>
          (Inr \<lparr>r_Order = convertOrderToProto ord', r_Message = ''Provider assigned successfully'',
                r_Success = True\<rparr>, d2))"

definition AssignProvider ::
  "Env \<Rightarrow> DB \<Rightarrow> AssignProviderRequest \<Rightarrow> Time \<Rightarrow> (Code + OrderResponse) \<times> DB" where
  "AssignProvider env d req now =
     (case AssignProvider_read env d req now of
        (Inl c, d1) \<Rightarrow> (Inl c, d1)
      | (Inr updatedOrder, d1) \<Rightarrow> AssignProvider_write d1 updatedOrder now)"

text \<open>
  \<open>OrderService.AcceptOrder\<close>. \<open>locID\<close> is the UUID for the optional location row, whose
  failure to be written is printed and dropped.
\<close>

definition AcceptOrder_read :: "DB \<Rightarrow> AcceptOrderRequest \<Rightarrow> Time \<Rightarrow> (Code + Order) \<times> DB" where
  "AcceptOrder_read d req now =
     (if ac_OrderId req = [] \<or> ac_ProviderId req = [] then (Inl InvalidArgument, d)
      else case getCurrentOrder d (ac_OrderId req) of
        (Inl c, d1) \<Rightarrow> (Inl c, d1)
      | (Inr ord, d1) \<Rightarrow>
          if ProviderID ord \<noteq> ac_ProviderId req then (Inl PermissionDenied, d1)
          else (Inr ((AddStatusHistory ord StatusProviderAccepted (ac_ProviderId req)
                        ''Provider accepted the order'' now)\<lparr>UpdatedAt := now\<rparr>), d1))"

definition AcceptOrder_write ::
  "DB \<Rightarrow> AcceptOrderRequest \<Rightarrow> Order \<Rightarrow> string \<Rightarrow> Time \<Rightarrow> (Code + OrderResponse) \<times> DB" where
  "AcceptOrder_write d req ord locID now =
     (case repo_UpdateOrder d ord now of
        (Some e, ord', d2) \<Rightarrow> (Inl Internal, d2)
      | (None, ord', d2) \<Rightarrow>
          let d3 = (case ac_CurrentLocation req of
                      None \<Rightarrow> d2
                    | Some cur \<Rightarrow>
                        snd (CreateOrderLocation d2
                               \<lparr>l_ID = [], l_OrderID = ID ord', l_ProviderID = ac_ProviderId req,
                                l_Latitude = Latitude cur, l_Longitude = Longitude cur,
                                l_Timestamp = now\<rparr> locID now))
          in (Inr \<lparr>r_Order = convertOrderToProto ord', r_Message = ''Order accepted successfully'',
                   r_Success = True\<rparr>, d3))"

definition AcceptOrder ::
  "DB \<Rightarrow> AcceptOrderRequest \<Rightarrow> string \<Rightarrow> Time \<Rightarrow> (Code + OrderResponse) \<times> DB" where
  "AcceptOrder d req locID now =
     (case AcceptOrder_read d req now of
        (Inl c, d1) \<Rightarrow> (Inl c, d1)
      | (Inr ord, d1) \<Rightarrow> AcceptOrder_write d1 req ord locID now)"

text \<open>
  \<open>OrderService.RejectOrder\<close>, up to its return. The rematch it starts in the
  background is \<open>rematch\<close>, which runs on the handler's copy of the order.
\<close>

definition RejectOrder_read :: "DB \<Rightarrow> RejectOrderRequest \<Rightarrow> Time \<Rightarrow> (Code + Order) \<times> DB" where
  "RejectOrder_read d req now =
     (if rj_OrderId req = [] \<or> rj_ProviderId req = [] then (Inl InvalidArgument, d)
      else case getCurrentOrder d (rj_OrderId req) of
        (Inl c, d1) \<Rightarrow> (Inl c, d1)
      | (Inr ord, d1) \<Rightarrow>
          if ProviderID ord \<noteq> rj_ProviderId req then (Inl PermissionDenied, d1)
          else (Inr ((AddStatusHistory ord StatusProviderRejected (rj_ProviderId req)
                        (rj_Reason req) now)\<lparr>ProviderID := [], UpdatedAt := now\<rparr>), d1))"

definition RejectOrder_write :: "DB \<Rightarrow> Order \<Rightarrow> Time \<Rightarrow> (Code + OrderResponse) \<times> DB" where
  "RejectOrder_write d ord now =
     (case repo_UpdateOrder d ord now of
        (Some e, ord', d2) \<Rightarrow> (Inl Internal, d2)
      | (None, ord', d2) \<Rightarrow>
          (Inr \<lparr>r_Order = convertOrderToProto ord', r_Message = ''Order rejected successfully'',
                r_Success = True\<rparr>, d2))"

definition RejectOrder :: "DB \<Rightarrow> RejectOrderRequest \<Rightarrow> Time \<Rightarrow> (Code + OrderResponse) \<times> DB" where
  "RejectOrder d req now =
     (case RejectOrder_read d req now of
        (Inl c, d1) \<Rightarrow> (Inl c, d1)
      | (Inr ord, d1) \<Rightarrow> RejectOrder_write d1 ord now)"

definition rematch :: "Env \<Rightarrow> DB \<Rightarrow> Order \<Rightarrow> Time \<Rightarrow> DB" where
  "rematch env d ord now =
     (case fst (FindBestProviders env ord 3) of
        Inl e \<Rightarrow> d
      | Inr [] \<Rightarrow> d
      | Inr (p # ps) \<Rightarrow> snd (snd (repo_UpdateOrder d (matcher_AssignProvider ord (p_ID p) now) now)))"

section \<open>The order service: listings\<close>

text \<open>
  \<open>OrderRepository.ListUserOrders\<close> and \<open>ListProviderOrders\<close> differ in the column
  they select on, so both are \<open>listOrders\<close> with that column as \<open>owner\<close>. The count and
  the page are two statements.
\<close>

definition selectOrders :: "(Order \<Rightarrow> string) \<Rightarrow> string \<Rightarrow> OrderStatus \<Rightarrow> Order list \<Rightarrow> Order list" where
  "selectOrders owner ownerID st rows =
     filter (\<lambda>r. owner r = ownerID \<and> (st = [] \<or> Status r = st)) rows"

definition listOrders ::
  "(Order \<Rightarrow> string) \<Rightarrow> DB \<Rightarrow> string \<Rightarrow> int \<Rightarrow> int \<Rightarrow> OrderStatus \<Rightarrow> (repo_error + Order list \<times> int) \<times> DB" where
  "listOrders owner d ownerID page limit st =
     (let (f1, d1) = roundtrip d in
      if f1 then (Inl ErrStore, d1)
      else
        let cnt = int (length (selectOrders owner ownerID st (orders d1)));
            page1 = (if page < 1 then 1 else page);
            limit1 = (if limit < 1 \<or> limit > 100 then 10 else limit);
            skip = (page1 - 1) * limit1;
            (f2, d2) = roundtrip d1
        in if f2 then (Inl ErrStore, d2)
           else (Inr (take (nat limit1) (drop (nat skip)
                        (order_by_created_at_desc (engine d2)
                           (selectOrders owner ownerID st (orders d2)))), cnt), d2))"

definition repo_ListUserOrders ::
  "DB \<Rightarrow> string \<Rightarrow> int \<Rightarrow> int \<Rightarrow> OrderStatus \<Rightarrow> (repo_error + Order list \<times> int) \<times> DB" where
  "repo_ListUserOrders d userID page limit st = listOrders UserID d userID page limit st"

definition repo_ListProviderOrders ::
  "DB \<Rightarrow> string \<Rightarrow> int \<Rightarrow> int \<Rightarrow> OrderStatus \<Rightarrow> (repo_error + Order list \<times> int) \<times> DB" where
  "repo_ListProviderOrders d providerID page limit st = listOrders ProviderID d providerID page limit st"

text \<open>
  What the engine promises of \<open>ORDER BY created_at DESC\<close>: the same rows, none earlier
  than a row that follows it.
\<close>

definition order_by_contract :: "(Order list \<Rightarrow> Order list) \<Rightarrow> bool" where
  "order_by_contract f =
     (\<forall>rows. mset (f rows) = mset rows \<and> sorted_wrt (\<lambda>a b. CreatedAt b \<le> CreatedAt a) (f rows))"

record ListUserOrdersRequest =
  lu_UserId :: string
  lu_Page :: "32 word"
  lu_Limit :: "32 word"
  lu_Status :: int

record ListProviderOrdersRequest =
  lp_ProviderId :: string
  lp_Page :: "32 word"
  lp_Limit :: "32 word"
  lp_Status :: int

record ListOrdersResponse =
  lr_Orders :: "pb_Order list"
  lr_Total :: "32 word"
  lr_Page :: "32 word"
  lr_Limit :: "32 word"

definition statusFilter :: "int \<Rightarrow> OrderStatus" where
  "statusFilter st = (if st \<noteq> ORDER_STATUS_UNSPECIFIED then convertOrderStatusFromProto st else [])"

definition ListUserOrders :: "DB \<Rightarrow> ListUserOrdersRequest \<Rightarrow> (Code + ListOrdersResponse) \<times> DB" where
  "ListUserOrders d req =
     (if lu_UserId req = [] then (Inl InvalidArgument, d)
      else case repo_ListUserOrders d (lu_UserId req) (sint (lu_Page req)) (sint (lu_Limit req))
                  (statusFilter (lu_Status req)) of
        (Inl e, d1) \<Rightarrow> (Inl Internal, d1)
      | (Inr (rows, cnt), d1) \<Rightarrow>
          (Inr \<lparr>lr_Orders = map convertOrderToProto rows, lr_Total = word_of_int cnt,
                lr_Page = lu_Page req, lr_Limit = lu_Limit req\<rparr>, d1))"

definition ListProviderOrders :: "DB \<Rightarrow> ListProviderOrdersRequest \<Rightarrow> (Code + ListOrdersResponse) \<times> DB" where
  "ListProviderOrders d req =
     (if lp_ProviderId req = [] then (Inl InvalidArgument, d)
      else case repo_ListProviderOrders d (lp_ProviderId req) (sint (lp_Page req)) (sint (lp_Limit req))
                  (statusFilter (lp_Status req)) of
        (Inl e, d1) \<Rightarrow> (Inl Internal, d1)
      | (Inr (rows, cnt), d1) \<Rightarrow>
          (Inr \<lparr>lr_Orders = map convertOrderToProto rows, lr_Total = word_of_int cnt,
                lr_Page = lp_Page req, lr_Limit = lp_Limit req\<rparr>, d1))"

section \<open>Arrival estimate\<close>

text \<open>
  \<open>estimateArrivalMinutes\<close>: computed in \<open>float64\<close> and returned as a \<open>float32\<close>.
\<close>

definition estimateArrivalMinutes :: "OrderLocation \<Rightarrow> Location \<Rightarrow> float" where
  "estimateArrivalMinutes location destination =
     (let dLat = fsub (Latitude destination) (l_Latitude location);
          dLon = fsub (Longitude destination) (l_Longitude location);
          distance = fmul (fadd (fmul dLat dLat) (fmul dLon dLon)) (Finite 111);
          averageSpeed = Finite 30;
          estimatedMinutes = fmul (fdiv distance averageSpeed) (Finite 60)
      in narrow estimatedMinutes)"

section \<open>Example inputs\<close>

text \<open>
  An engine that accepts every row and keeps every value as written, a store with no
  rows and no faults, and a request for two items.
\<close>

definition plain_engine :: Engine where
  "plain_engine =
     \<lparr>accepts_order = (\<lambda>ord. True), accepts_location = (\<lambda>loc. True),
      numeric_10_2 = (\<lambda>x. x), timestamp_col = (\<lambda>t. t),
      order_by_created_at_desc = sort_key (\<lambda>r. - CreatedAt r)\<rparr>"

definition empty_store :: DB where
  "empty_store = \<lparr>engine = plain_engine, orders = [], order_locations = [], faults = []\<rparr>"

definition example_request :: CreateOrderRequest where
  "example_request =
     \<lparr>cr_UserId = ''user-1'', cr_OrderType = ORDER_TYPE_FOOD_DELIVERY,
      cr_PickupLocation = Some zeroLocation, cr_DestinationLocation = Some zeroLocation,
      cr_Items = [\<lparr>pb_ItemId = ''a'', pb_Name = ''a'', pb_Quantity = 2, pb_Price = Finite 10,
                    pb_Properties = Map.empty\<rparr>,
                  \<lparr>pb_ItemId = ''b'', pb_Name = ''b'', pb_Quantity = 1, pb_Price = Finite 5,
                    pb_Properties = Map.empty\<rparr>],
      cr_PaymentMethod = PAYMENT_METHOD_CASH, cr_Notes = []\<rparr>"

section \<open>Auxiliary facts: rounding\<close>

lemma round_half_even_err: "\<bar>of_int (round_half_even x) - x\<bar> \<le> 1 / 2"
  unfolding round_half_even_def Let_def by (auto; linarith)

lemma round_half_even_of_int [simp]: "round_half_even (of_int n) = n"
  by (simp add: round_half_even_def)

lemma floor_log2_iff:
  assumes "0 < x"
  shows "(\<lfloor>log 2 x\<rfloor> = k) = (2 powi k \<le> x \<and> x < 2 powi (k + 1))"
proof -
  have a: "(2::real) powr real_of_int k = 2 powi k" by (simp add: powr_real_of_int')
  have b: "(2::real) powr real_of_int (k + 1) = 2 powi (k + 1)" by (rule powr_real_of_int') auto
  show ?thesis using floor_log_eq_powr_iff [OF assms, of 2 k] unfolding a b by simp
qed

lemma floor_log2_bounds:
  assumes "x \<noteq> 0"
  shows "2 powi \<lfloor>log 2 \<bar>x\<bar>\<rfloor> \<le> \<bar>x\<bar>" and "\<bar>x\<bar> < 2 powi (\<lfloor>log 2 \<bar>x\<bar>\<rfloor> + 1)"
  using floor_log2_iff [of "\<bar>x\<bar>" "\<lfloor>log 2 \<bar>x\<bar>\<rfloor>"] assms by simp_all

lemma floor_log2_eq:
  assumes "2 powi k \<le> \<bar>x\<bar>" "\<bar>x\<bar> < 2 powi (k + 1)"
  shows "\<lfloor>log 2 \<bar>x\<bar>\<rfloor> = k"
proof -
  have "(0::real) < 2 powi k" by simp
  with assms have pos: "0 < \<bar>x\<bar>" by linarith
  show ?thesis using floor_log2_iff [OF pos, of k] assms by simp
qed

text \<open>The error of one rounding.\<close>

lemma round_to_error:
  assumes "round_to p emin emax x = Finite y"
  shows "\<bar>y - x\<bar> \<le> 2 powi (- int p) * (\<bar>x\<bar> + 2 powi emin)"
proof (cases "x = 0")
  case True
  with assms show ?thesis by (simp add: round_to_def)
next
  case False
  define e where "e = max \<lfloor>log 2 \<bar>x\<bar>\<rfloor> emin"
  define q :: real where "q = 2 powi (e - int p + 1)"
  have qpos: "0 < q" by (simp add: q_def)
  have y: "y = of_int (round_half_even (x / q)) * q"
    using assms False by (simp add: round_to_def Let_def e_def q_def split: if_splits)
  have "(of_int (round_half_even (x / q)) - x / q) * q = y - x"
    using qpos by (simp add: y left_diff_distrib)
  then have "\<bar>y - x\<bar> = \<bar>of_int (round_half_even (x / q)) - x / q\<bar> * q"
    using qpos by (metis abs_mult abs_of_pos)
  also have "\<dots> \<le> (1 / 2) * q"
    using round_half_even_err [of "x / q"] qpos by (intro mult_right_mono) auto
  also have "(1 / 2) * q = 2 powi (- int p) * 2 powi e"
    by (simp add: q_def power_int_add power_int_diff power_int_minus field_simps)
  also have "2 powi e \<le> \<bar>x\<bar> + 2 powi emin"
  proof (cases "emin \<le> \<lfloor>log 2 \<bar>x\<bar>\<rfloor>")
    case True
    then have "e = \<lfloor>log 2 \<bar>x\<bar>\<rfloor>" by (simp add: e_def)
    with floor_log2_bounds(1) [OF False] have "2 powi e \<le> \<bar>x\<bar>" by simp
    moreover have "(0::real) \<le> 2 powi emin" by simp
    ultimately show ?thesis by linarith
  next
    case False
    then have "e = emin" by (simp add: e_def)
    then show ?thesis by simp
  qed
  finally show ?thesis by (simp add: mult_left_mono)
qed

lemma round_to_eval:
  assumes "2 powi e \<le> \<bar>x\<bar>" "\<bar>x\<bar> < 2 powi (e + 1)" "emin \<le> e"
    and "round_half_even (x / 2 powi (e - int p + 1)) = n"
    and "\<bar>of_int n * 2 powi (e - int p + 1)\<bar> < (2::real) powi (emax + 1)"
  shows "round_to p emin emax x = Finite (of_int n * 2 powi (e - int p + 1))"
proof -
  have "(0::real) < 2 powi e" by simp
  with assms(1) have "0 < \<bar>x\<bar>" by linarith
  then have nz: "x \<noteq> 0" by auto
  have "\<lfloor>log 2 \<bar>x\<bar>\<rfloor> = e" using floor_log2_eq assms(1,2) by blast
  then have "max \<lfloor>log 2 \<bar>x\<bar>\<rfloor> emin = e" using assms(3) by simp
  then show ?thesis using nz assms(4,5) by (simp add: round_to_def Let_def)
qed

lemma round_to_of_int:
  assumes "\<bar>n\<bar> < 2 ^ p" "emin \<le> 0" "int p \<le> emax + 1"
  shows "round_to p emin emax (of_int n) = Finite (of_int n)"
proof (cases "n = 0")
  case True
  then show ?thesis by (simp add: round_to_def)
next
  case False
  define x :: real where "x = of_int n"
  define k where "k = \<lfloor>log 2 \<bar>x\<bar>\<rfloor>"
  have xnz: "x \<noteq> 0" using False by (simp add: x_def)
  have lo: "2 powi k \<le> \<bar>x\<bar>" and hi: "\<bar>x\<bar> < 2 powi (k + 1)"
    using floor_log2_bounds [OF xnz] by (simp_all add: k_def)
  have x1: "1 \<le> \<bar>x\<bar>" using False by (simp add: x_def flip: of_int_abs)
  have xp: "\<bar>x\<bar> < 2 powi int p"
    using assms(1) by (simp add: x_def power_int_of_nat flip: of_int_abs)
  have k0: "0 \<le> k"
  proof (rule ccontr)
    assume "\<not> 0 \<le> k"
    then have "k + 1 \<le> 0" by simp
    then have "(2::real) powi (k + 1) \<le> 2 powi 0" by (intro power_int_increasing) auto
    with hi x1 show False by simp
  qed
  have kp: "k < int p"
  proof (rule ccontr)
    assume "\<not> k < int p"
    then have "(2::real) powi int p \<le> 2 powi k" by (intro power_int_increasing) auto
    with lo xp show False by linarith
  qed
  define m where "m = nat (int p - 1 - k)"
  have q: "(2::real) powi (k - int p + 1) = 1 / 2 ^ m"
  proof -
    have "k - int p + 1 = - int m" using kp by (simp add: m_def)
    then show ?thesis by (simp add: power_int_minus_divide power_int_of_nat)
  qed
  have "x / 2 powi (k - int p + 1) = of_int (n * 2 ^ m)" by (simp add: q x_def)
  then have r: "round_half_even (x / 2 powi (k - int p + 1)) = n * 2 ^ m"
    using round_half_even_of_int by metis
  have eqx: "of_int (n * 2 ^ m) * (2::real) powi (k - int p + 1) = x" by (simp add: q x_def)
  have "(2::real) powi int p \<le> 2 powi (emax + 1)" using assms(3) by (intro power_int_increasing) auto
  with xp have "\<bar>x\<bar> < 2 powi (emax + 1)" by linarith
  then have "\<bar>of_int (n * 2 ^ m) * (2::real) powi (k - int p + 1)\<bar> < 2 powi (emax + 1)"
    by (simp only: eqx)
  from round_to_eval [OF lo hi _ r this] assms(2) k0
  have "round_to p emin emax x = Finite (of_int (n * 2 ^ m) * 2 powi (k - int p + 1))" by simp
  then show ?thesis by (simp only: eqx) (simp add: x_def)
qed

lemma float64_of_int: "\<bar>n\<bar> < 2 ^ 53 \<Longrightarrow> float64 (of_int n) = Finite (of_int n)"
  unfolding float64_def by (rule round_to_of_int) auto

lemma float32_of_int: "\<bar>n\<bar> < 2 ^ 24 \<Longrightarrow> float32 (of_int n) = Finite (of_int n)"
  unfolding float32_def by (rule round_to_of_int) auto

lemma float64_tenth: "float64 (1 / 10) = Finite (7205759403792794 / 2 ^ 56)"
proof -
  have "round_to 53 (- 1022) 1023 (1 / 10) = Finite (of_int 7205759403792794 * 2 powi (- 4 - int 53 + 1))"
    by (rule round_to_eval) (simp_all add: round_half_even_def power_int_minus_divide)
  then show ?thesis by (simp add: float64_def power_int_minus_divide)
qed

section \<open>Auxiliary facts: the store\<close>

lemma roundtrip_engine [simp]: "engine (snd (roundtrip d)) = engine d"
  and roundtrip_orders [simp]: "orders (snd (roundtrip d)) = orders d"
  and roundtrip_locations [simp]: "order_locations (snd (roundtrip d)) = order_locations d"
  by (simp_all add: roundtrip_def split: list.splits)

lemma roundtrip_no_fault: "faults d = [] \<Longrightarrow> roundtrip d = (False, d)"
  by (simp add: roundtrip_def)

lemma roundtrip_cases:
  obtains d' where "roundtrip d = (True, d')" "engine d' = engine d" "orders d' = orders d"
      "order_locations d' = order_locations d"
  | d' where "roundtrip d = (False, d')" "engine d' = engine d" "orders d' = orders d"
      "order_locations d' = order_locations d"
proof (cases "roundtrip d")
  case (Pair f d')
  then have "engine d' = engine d" "orders d' = orders d" "order_locations d' = order_locations d"
    using roundtrip_engine [of d] roundtrip_orders [of d] roundtrip_locations [of d] by simp_all
  with Pair that show thesis by (cases f) auto
qed

lemma stored_engine: "engine d' = engine d \<Longrightarrow> stored d' ord = stored d ord"
  by (simp add: stored_def)

lemma stored_fields [simp]:
  "ID (stored d ord) = ID ord" "UserID (stored d ord) = UserID ord"
  "ProviderID (stored d ord) = ProviderID ord" "OrderType (stored d ord) = OrderType ord"
  "Status (stored d ord) = Status ord" "StatusHistories (stored d ord) = StatusHistories ord"
  "PaymentMethod (stored d ord) = PaymentMethod ord"
  by (simp_all add: stored_def)

lemma newOrder_fields [simp]:
  "ID (newOrder req oid now) = oid" "UserID (newOrder req oid now) = cr_UserId req"
  "ProviderID (newOrder req oid now) = []"
  "OrderType (newOrder req oid now) = convertOrderType (cr_OrderType req)"
  "PaymentMethod (newOrder req oid now) = convertPaymentMethod (cr_PaymentMethod req)"
  "Status (newOrder req oid now) = StatusCreated"
  "StatusHistories (newOrder req oid now) =
     [\<lparr>h_Status = StatusCreated, h_UpdatedBy = ''system'', h_Notes = ''Order created'',
       h_Timestamp = now\<rparr>]"
  "Items (newOrder req oid now) = convertOrderItems (cr_Items req)"
  "TotalPrice (newOrder req oid now) = calculateTotalPrice (convertOrderItems (cr_Items req))"
  "PlatformFee (newOrder req oid now) =
     fmul (calculateTotalPrice (convertOrderItems (cr_Items req))) (float64 (1 / 10))"
  "ProviderFee (newOrder req oid now) =
     fmul (calculateTotalPrice (convertOrderItems (cr_Items req))) (float64 (8 / 10))"
  by (simp_all add: newOrder_def CalculateFees_def Let_def)

lemma repo_CreateOrder_None:
  assumes "repo_CreateOrder d ord = (None, d')"
  shows "orders d' = orders d @ [stored d ord] \<and> engine d' = engine d \<and>
    accepts_order (engine d) ord \<and> (\<forall>r \<in> set (orders d). ID r \<noteq> ID ord) \<and>
    ID ord \<noteq> [] \<and> UserID ord \<noteq> []"
proof (cases d rule: roundtrip_cases)
  case (1 d1)
  with assms show ?thesis by (simp add: repo_CreateOrder_def split: if_splits)
next
  case (2 d1)
  with assms have a: "ID ord \<noteq> []" "UserID ord \<noteq> []" "accepts_order (engine d1) ord"
    "\<not> (\<exists>r \<in> set (orders d1). ID r = ID ord)" "d' = d1\<lparr>orders := orders d1 @ [stored d1 ord]\<rparr>"
    by (simp_all add: repo_CreateOrder_def split: if_splits)
  have "stored d1 ord = stored d ord" using 2(2) by (rule stored_engine)
  with a 2 show ?thesis by auto
qed


section \<open>Auxiliary facts: order creation\<close>

lemma CreateOrder_Inr:
  assumes "CreateOrder d req oid now = (Inr resp, d')"
  shows "r_Order resp = convertOrderToProto (newOrder req oid now) \<and>
     orders d' = orders d @ [stored d (newOrder req oid now)] \<and>
     engine d' = engine d \<and>
     accepts_order (engine d) (newOrder req oid now) \<and>
     (\<forall>r \<in> set (orders d). ID r \<noteq> oid)"
proof -
  obtain e d1 where rc: "repo_CreateOrder d (newOrder req oid now) = (e, d1)"
    by (cases "repo_CreateOrder d (newOrder req oid now)")
  from assms have v: "cr_UserId req \<noteq> []" "\<not> (cr_PickupLocation req = None \<or> cr_DestinationLocation req = None)"
    by (auto simp: CreateOrder_def split: if_splits)
  from assms v rc have e: "e = None"
    by (cases e) (simp_all add: CreateOrder_def Let_def)
  from assms v rc e have d1: "d1 = d'"
    and r: "r_Order resp = convertOrderToProto (newOrder req oid now)"
    by (auto simp add: CreateOrder_def Let_def)
  from repo_CreateOrder_None [OF rc [unfolded e d1]] r show ?thesis by simp
qed


lemma CreateOrder_succeeds:
  assumes "cr_UserId req \<noteq> []" "cr_PickupLocation req \<noteq> None" "cr_DestinationLocation req \<noteq> None"
    "oid \<noteq> []" "\<forall>r \<in> set (orders d). ID r \<noteq> oid" "faults d = []"
    "accepts_order (engine d) (newOrder req oid now)"
  shows "\<exists>resp d'. CreateOrder d req oid now = (Inr resp, d')"
proof -
  have "repo_CreateOrder d (newOrder req oid now)
        = (None, d\<lparr>orders := orders d @ [stored d (newOrder req oid now)]\<rparr>)"
    using assms by (simp add: repo_CreateOrder_def roundtrip_no_fault)
  then show ?thesis using assms(1-3) by (simp add: CreateOrder_def Let_def)
qed


lemma CreateOrder_cong_newOrder:
  assumes "newOrder req oid now = newOrder req' oid now" "cr_UserId req = cr_UserId req'"
    "cr_PickupLocation req = cr_PickupLocation req'"
    "cr_DestinationLocation req = cr_DestinationLocation req'"
  shows "CreateOrder d req oid now = CreateOrder d req' oid now"
  using assms by (simp add: CreateOrder_def)


lemma example_request_created:
  assumes "cr_UserId req = cr_UserId example_request"
    "cr_PickupLocation req = cr_PickupLocation example_request"
    "cr_DestinationLocation req = cr_DestinationLocation example_request"
  shows "\<exists>resp d'. CreateOrder empty_store req ''order-1'' 0 = (Inr resp, d')"
  by (rule CreateOrder_succeeds) (simp_all add: assms example_request_def empty_store_def plain_engine_def)

section \<open>Unrecognised order types and payment methods\<close>

text \<open>
  C10. An order type outside the five recognised numbers (the unspecified 0 included)
  is converted to \<open>RIDE\<close>, and \<open>CreateOrder\<close> treats the request exactly as the same
  request with order type \<open>RIDE\<close>: same reply or same error, same store. So the
  request is never rejected for its order type, and an order it creates has order type
  \<open>RIDE\<close> in the reply and in its row. Likewise a payment method outside the five
  recognised numbers becomes \<open>CREDIT_CARD\<close>.
\<close>

theorem C10_unrecognised_enums_default:
  "(ot \<notin> {ORDER_TYPE_RIDE, ORDER_TYPE_FOOD_DELIVERY, ORDER_TYPE_PACKAGE_DELIVERY,
            ORDER_TYPE_GROCERY_DELIVERY, ORDER_TYPE_SERVICE_BOOKING} \<longrightarrow>
      convertOrderType ot = TypeRide \<and>
      CreateOrder d (req\<lparr>cr_OrderType := ot\<rparr>) oid now =
        CreateOrder d (req\<lparr>cr_OrderType := ORDER_TYPE_RIDE\<rparr>) oid now \<and>
      (CreateOrder d (req\<lparr>cr_OrderType := ot\<rparr>) oid now = (Inr resp, d') \<longrightarrow>
         pbo_OrderType (r_Order resp) = ORDER_TYPE_RIDE \<and>
         (\<exists>row \<in> set (orders d'). ID row = oid \<and> OrderType row = TypeRide))) \<and>
   (pm \<notin> {PAYMENT_METHOD_CREDIT_CARD, PAYMENT_METHOD_DEBIT_CARD, PAYMENT_METHOD_DIGITAL_WALLET,
            PAYMENT_METHOD_CASH, PAYMENT_METHOD_CRYPTO} \<longrightarrow>
      convertPaymentMethod pm = PaymentCreditCard \<and>
      CreateOrder d (req\<lparr>cr_PaymentMethod := pm\<rparr>) oid now =
        CreateOrder d (req\<lparr>cr_PaymentMethod := PAYMENT_METHOD_CREDIT_CARD\<rparr>) oid now \<and>
      (CreateOrder d (req\<lparr>cr_PaymentMethod := pm\<rparr>) oid now = (Inr resp2, d2) \<longrightarrow>
         pbo_PaymentMethod (r_Order resp2) = PAYMENT_METHOD_CREDIT_CARD \<and>
         (\<exists>row \<in> set (orders d2). ID row = oid \<and> PaymentMethod row = PaymentCreditCard)))"
proof (intro conjI impI)
  assume ot: "ot \<notin> {ORDER_TYPE_RIDE, ORDER_TYPE_FOOD_DELIVERY, ORDER_TYPE_PACKAGE_DELIVERY,
            ORDER_TYPE_GROCERY_DELIVERY, ORDER_TYPE_SERVICE_BOOKING}"
  then show ride: "convertOrderType ot = TypeRide" by (simp add: convertOrderType_def)
  have "convertOrderType ORDER_TYPE_RIDE = TypeRide" by (simp add: convertOrderType_def)
  with ride show "CreateOrder d (req\<lparr>cr_OrderType := ot\<rparr>) oid now =
        CreateOrder d (req\<lparr>cr_OrderType := ORDER_TYPE_RIDE\<rparr>) oid now"
    by (intro CreateOrder_cong_newOrder) (simp_all add: newOrder_def)
  assume ok: "CreateOrder d (req\<lparr>cr_OrderType := ot\<rparr>) oid now = (Inr resp, d')"
  note c = CreateOrder_Inr [OF ok]
  from c ride show "pbo_OrderType (r_Order resp) = ORDER_TYPE_RIDE"
    by (simp add: convertOrderToProto_def convertOrderTypeToProto_def)
  from c ride show "\<exists>row \<in> set (orders d'). ID row = oid \<and> OrderType row = TypeRide"
    by simp
next
  assume pm: "pm \<notin> {PAYMENT_METHOD_CREDIT_CARD, PAYMENT_METHOD_DEBIT_CARD,
            PAYMENT_METHOD_DIGITAL_WALLET, PAYMENT_METHOD_CASH, PAYMENT_METHOD_CRYPTO}"
  then show cc: "convertPaymentMethod pm = PaymentCreditCard" by (simp add: convertPaymentMethod_def)
  have "convertPaymentMethod PAYMENT_METHOD_CREDIT_CARD = PaymentCreditCard"
    by (simp add: convertPaymentMethod_def)
  with cc show "CreateOrder d (req\<lparr>cr_PaymentMethod := pm\<rparr>) oid now =
        CreateOrder d (req\<lparr>cr_PaymentMethod := PAYMENT_METHOD_CREDIT_CARD\<rparr>) oid now"
    by (intro CreateOrder_cong_newOrder) (simp_all add: newOrder_def)
  assume ok: "CreateOrder d (req\<lparr>cr_PaymentMethod := pm\<rparr>) oid now = (Inr resp2, d2)"
  note c = CreateOrder_Inr [OF ok]
  from c cc show "pbo_PaymentMethod (r_Order resp2) = PAYMENT_METHOD_CREDIT_CARD"
    by (simp add: convertOrderToProto_def convertPaymentMethodToProto_def)
  from c cc show "\<exists>row \<in> set (orders d2). ID row = oid \<and> PaymentMethod row = PaymentCreditCard"
    by simp
qed


theorem C10_unrecognised_enums_default_witness:
  "\<not> isl (fst (CreateOrder empty_store (example_request\<lparr>cr_OrderType := 17\<rparr>) ''order-1'' 0)) \<and>
   pbo_OrderType (r_Order (projr (fst (CreateOrder empty_store
       (example_request\<lparr>cr_OrderType := 17\<rparr>) ''order-1'' 0)))) = ORDER_TYPE_RIDE \<and>
   \<not> isl (fst (CreateOrder empty_store (example_request\<lparr>cr_PaymentMethod := 0\<rparr>) ''order-1'' 0)) \<and>
   pbo_PaymentMethod (r_Order (projr (fst (CreateOrder empty_store
       (example_request\<lparr>cr_PaymentMethod := 0\<rparr>) ''order-1'' 0)))) = PAYMENT_METHOD_CREDIT_CARD"
proof -
  obtain ra da where a: "CreateOrder empty_store (example_request\<lparr>cr_OrderType := 17\<rparr>) ''order-1'' 0
      = (Inr ra, da)"
    using example_request_created [of "example_request\<lparr>cr_OrderType := 17\<rparr>"] by auto
  obtain rb db where b: "CreateOrder empty_store (example_request\<lparr>cr_PaymentMethod := 0\<rparr>) ''order-1'' 0
      = (Inr rb, db)"
    using example_request_created [of "example_request\<lparr>cr_PaymentMethod := 0\<rparr>"] by auto
  have na: "(17::int) \<notin> {ORDER_TYPE_RIDE, ORDER_TYPE_FOOD_DELIVERY, ORDER_TYPE_PACKAGE_DELIVERY,
            ORDER_TYPE_GROCERY_DELIVERY, ORDER_TYPE_SERVICE_BOOKING}" by simp
  have nb: "(0::int) \<notin> {PAYMENT_METHOD_CREDIT_CARD, PAYMENT_METHOD_DEBIT_CARD,
            PAYMENT_METHOD_DIGITAL_WALLET, PAYMENT_METHOD_CASH, PAYMENT_METHOD_CRYPTO}" by simp
  from C10_unrecognised_enums_default
         [of 17 empty_store example_request "''order-1''" 0 ra da 0 rb db] na nb a b
  have "pbo_OrderType (r_Order ra) = ORDER_TYPE_RIDE"
    and "pbo_PaymentMethod (r_Order rb) = PAYMENT_METHOD_CREDIT_CARD" by blast+
  then show ?thesis by (simp add: a b)
qed

end
